theory Spec2Isabelle
  imports Complex_Main "HOL-Library.List_Lexorder" "HOL-Library.Multiset"
begin

section \<open>Text as the interpreter sees it\<close>

text \<open>
  A Python string is a sequence of code points. The model covers the code points
  below 256, one \<^typ>\<open>char\<close> each, and classifies them as \<^verbatim>\<open>str.isspace\<close>,
  \<^verbatim>\<open>str.isalpha\<close> and \<^verbatim>\<open>str.isdigit\<close> do on that range.
\<close>

definition code :: "char \<Rightarrow> nat" where
  "code c = of_char c"

definition py_isspace :: "char \<Rightarrow> bool" where
  "py_isspace c =
     ((9 \<le> code c \<and> code c \<le> 13) \<or> (28 \<le> code c \<and> code c \<le> 32)
      \<or> code c = 133 \<or> code c = 160)"

definition py_isalpha :: "char \<Rightarrow> bool" where
  "py_isalpha c =
     ((65 \<le> code c \<and> code c \<le> 90) \<or> (97 \<le> code c \<and> code c \<le> 122)
      \<or> code c = 170 \<or> code c = 181 \<or> code c = 186
      \<or> (192 \<le> code c \<and> code c \<le> 214) \<or> (216 \<le> code c \<and> code c \<le> 246)
      \<or> (248 \<le> code c \<and> code c \<le> 255))"

text \<open>\<^verbatim>\<open>str.isdigit\<close> of one character: the decimal digits and the superscripts 1, 2, 3.\<close>

definition py_isdigit_char :: "char \<Rightarrow> bool" where
  "py_isdigit_char c =
     ((48 \<le> code c \<and> code c \<le> 57) \<or> code c = 178 \<or> code c = 179 \<or> code c = 185)"

definition isdigit :: "string \<Rightarrow> bool" where
  "isdigit s = (s \<noteq> [] \<and> list_all py_isdigit_char s)"

definition strip :: "string \<Rightarrow> string" where
  "strip s = rev (dropWhile py_isspace (rev (dropWhile py_isspace s)))"

text \<open>
  \<^verbatim>\<open>int(s)\<close> for a text that passed \<^verbatim>\<open>isdigit\<close>: the decimal value, and
  \<^verbatim>\<open>ValueError\<close> (\<open>None\<close>) when a character is not a decimal digit, which on this
  range is the case of a superscript digit.
\<close>

fun int_digits :: "int \<Rightarrow> string \<Rightarrow> int option" where
  "int_digits acc [] = Some acc"
| "int_digits acc (c # cs) =
     (if 48 \<le> code c \<and> code c \<le> 57
      then int_digits (10 * acc + (int (code c) - 48)) cs
      else None)"

definition py_int :: "string \<Rightarrow> int option" where
  "py_int s = (if s = [] then None else int_digits 0 s)"

text \<open>ASCII case folding, as SQLite's \<^verbatim>\<open>NOCASE\<close> collation and \<^verbatim>\<open>LIKE\<close> apply it.\<close>

definition ascii_lower :: "char \<Rightarrow> char" where
  "ascii_lower c = (if 65 \<le> code c \<and> code c \<le> 90 then char_of (code c + 32) else c)"

text \<open>\<^verbatim>\<open>str.lower\<close> on the modelled range: ASCII and the Latin-1 capitals.\<close>

definition py_lower_char :: "char \<Rightarrow> char" where
  "py_lower_char c =
     (if (65 \<le> code c \<and> code c \<le> 90) \<or> (192 \<le> code c \<and> code c \<le> 214)
          \<or> (216 \<le> code c \<and> code c \<le> 222)
      then char_of (code c + 32) else c)"

definition lower :: "string \<Rightarrow> string" where
  "lower s = map py_lower_char s"

section \<open>The database\<close>

text \<open>
  The three tables of \<^verbatim>\<open>init_db\<close>. The \<^verbatim>\<open>students\<close> table is kept in rowid order,
  the order of a table scan; \<open>seq\<close> is the \<^verbatim>\<open>sqlite_sequence\<close> counter behind
  \<^verbatim>\<open>AUTOINCREMENT\<close>. The free-text \<^verbatim>\<open>details\<close> column of the audit log is left
  out. Row ids are unbounded integers.
\<close>

record student =
  sid :: int
  name :: string
  roll :: string
  course :: string
  marks :: int
  created_at :: string

record audit_entry =
  ts :: string
  user :: "string option"
  role :: "string option"
  action :: string

record credential =
  username :: string
  password :: string
  user_role :: string

record database =
  students :: "student list"
  seq :: int
  audit_log :: "audit_entry list"
  users :: "credential list"

text \<open>The two clocks an operation reads: SQLite's \<^verbatim>\<open>CURRENT_TIMESTAMP\<close> and
  \<^verbatim>\<open>datetime.utcnow()\<close>.\<close>

record clock =
  sql_now :: string
  utc_now :: string

datatype sql_error = IntegrityError

definition init_db :: "database \<Rightarrow> database" where
  "init_db d =
     (if users d = []
      then d\<lparr>users :=
             [\<lparr>username = ''admin'', password = ''admin'', user_role = ''Admin''\<rparr>,
              \<lparr>username = ''teacher'', password = ''teacher'', user_role = ''Teacher''\<rparr>]\<rparr>
      else d)"

definition log_audit ::
  "clock \<Rightarrow> string option \<Rightarrow> string option \<Rightarrow> string \<Rightarrow> database \<Rightarrow> database" where
  "log_audit clk u r a d =
     d\<lparr>audit_log := audit_log d @ [\<lparr>ts = utc_now clk, user = u, role = r, action = a\<rparr>]\<rparr>"

definition next_id :: "database \<Rightarrow> int" where
  "next_id d = fold max (map sid (students d)) (seq d) + 1"

text \<open>\<^verbatim>\<open>INSERT INTO students (name,roll,course,marks) VALUES (?,?,?,?)\<close>\<close>

definition insert_auto ::
  "clock \<Rightarrow> string \<Rightarrow> string \<Rightarrow> string \<Rightarrow> int \<Rightarrow> database \<Rightarrow> sql_error + database" where
  "insert_auto clk n r c m d =
     (if r \<in> set (map roll (students d)) then Inl IntegrityError
      else Inr (d\<lparr>students := students d @
                    [\<lparr>sid = next_id d, name = n, roll = r, course = c, marks = m,
                      created_at = sql_now clk\<rparr>],
                  seq := next_id d\<rparr>))"

text \<open>\<^verbatim>\<open>INSERT INTO students (id,name,roll,course,marks,created_at) VALUES (?,?,?,?,?,?)\<close>\<close>

definition insert_row :: "student \<Rightarrow> database \<Rightarrow> sql_error + database" where
  "insert_row s d =
     (if sid s \<in> set (map sid (students d)) \<or> roll s \<in> set (map roll (students d))
      then Inl IntegrityError
      else Inr (d\<lparr>students := insort_key sid s (students d), seq := max (seq d) (sid s)\<rparr>))"

text \<open>\<^verbatim>\<open>UPDATE students SET name=?, roll=?, course=?, marks=? WHERE id=?\<close>\<close>

definition update_row ::
  "int \<Rightarrow> string \<Rightarrow> string \<Rightarrow> string \<Rightarrow> int \<Rightarrow> database \<Rightarrow> sql_error + database" where
  "update_row i n r c m d =
     (if i \<in> set (map sid (students d))
         \<and> r \<in> set (map roll (filter (\<lambda>s. sid s \<noteq> i) (students d)))
      then Inl IntegrityError
      else Inr (d\<lparr>students :=
                    map (\<lambda>s. if sid s = i then s\<lparr>name := n, roll := r, course := c, marks := m\<rparr>
                             else s) (students d)\<rparr>))"

text \<open>\<^verbatim>\<open>DELETE FROM students WHERE id=?\<close> and \<^verbatim>\<open>DELETE FROM students WHERE roll=?\<close>\<close>

definition delete_id :: "int \<Rightarrow> database \<Rightarrow> database" where
  "delete_id i d = d\<lparr>students := filter (\<lambda>s. sid s \<noteq> i) (students d)\<rparr>"

definition delete_roll :: "string \<Rightarrow> database \<Rightarrow> database" where
  "delete_roll r d = d\<lparr>students := filter (\<lambda>s. roll s \<noteq> r) (students d)\<rparr>"

text \<open>What the schema guarantees of the table: ids strictly ascending in rowid order
  (\<^verbatim>\<open>PRIMARY KEY\<close>), rolls pairwise different (\<^verbatim>\<open>UNIQUE\<close>).\<close>

definition table_ok :: "database \<Rightarrow> bool" where
  "table_ok d = (sorted_wrt (<) (map sid (students d)) \<and> distinct (map roll (students d)))"

section \<open>The application\<close>

text \<open>
  \<^verbatim>\<open>StudentERPApp\<close>: the database and the fields the data logic reads and writes. The
  entry widgets are the \<open>form\<close> an operation is given, the selected line of the list
  view is a \<open>tree_row option\<close>, the answer to a confirmation dialog is a \<open>bool\<close>,
  and the message box an operation ends with is its \<open>outcome\<close>. Redrawing the list
  view after a write (\<^verbatim>\<open>load_page\<close>, \<^verbatim>\<open>clear_form\<close>, \<^verbatim>\<open>refresh_status\<close>) changes
  no field below and is modelled on its own in the section on paging.
\<close>

record form =
  m_name :: string
  m_roll :: string
  m_course :: string
  m_marks :: string

record tree_row =
  t_id :: int
  t_name :: string
  t_roll :: string
  t_course :: string
  t_marks :: int

datatype undo_entry =
    UDelete string
  | UInsert student
  | UUpdate tree_row

datatype redo_entry =
    RInsert string
  | RDelete string
  | RUpdateRedo int

record app =
  db :: database
  current_user :: "string option"
  current_role :: "string option"
  undo_stack :: "undo_entry list"
  redo_stack :: "redo_entry list"

datatype outcome =
    LoginWarning | LoginFailed | LoggedIn
  | ValidationWarning | Added | RollExists
  | SelectRow | Updated | RollConflict
  | GuestDenied | Cancelled | Deleted | DeleteError
  | NothingToUndo | UndoPerformed | UndoError
  | NothingToRedo | RedoExecuted
  | MissingColumns | ImportComplete int
  | Uncaught

definition audit :: "clock \<Rightarrow> string \<Rightarrow> app \<Rightarrow> database \<Rightarrow> database" where
  "audit clk a st d = log_audit clk (current_user st) (current_role st) a d"

subsection \<open>Login\<close>

text \<open>A text that \<^verbatim>\<open>strip\<close> leaves as it is and that is not empty.\<close>

definition trimmed :: "string \<Rightarrow> bool" where
  "trimmed s = (s \<noteq> [] \<and> \<not> py_isspace (hd s) \<and> \<not> py_isspace (last s))"

definition handle_login :: "clock \<Rightarrow> string \<Rightarrow> string \<Rightarrow> app \<Rightarrow> outcome \<times> app" where
  "handle_login clk login_user login_pass st =
     (let usr = strip login_user; pwd = strip login_pass in
      if usr = [] \<or> pwd = [] then (LoginWarning, st)
      else case find (\<lambda>c. username c = usr \<and> password c = pwd) (users (db st)) of
             Some c \<Rightarrow>
               (LoggedIn,
                st\<lparr>current_user := Some usr, current_role := Some (user_role c),
                   db := log_audit clk (Some usr) (Some (user_role c)) ''login'' (db st)\<rparr>)
           | None \<Rightarrow> (LoginFailed, st))"

definition login_as_guest :: "clock \<Rightarrow> app \<Rightarrow> app" where
  "login_as_guest clk st =
     st\<lparr>current_user := Some ''guest'', current_role := Some ''Guest'',
        db := log_audit clk (Some ''guest'') (Some ''Guest'') ''login'' (db st)\<rparr>"

subsection \<open>Validation\<close>

text \<open>
  \<^verbatim>\<open>validate_form\<close> returns \<open>None\<close> where \<^verbatim>\<open>int(marks)\<close> raises: the marks text passed
  \<^verbatim>\<open>isdigit\<close> and holds a superscript digit. The exception leaves the calling
  operation before it touched anything.
\<close>

definition name_char_ok :: "char \<Rightarrow> bool" where
  "name_char_ok ch = (py_isalpha ch \<or> ch \<in> set '' .-'')"

definition validate_form :: "form \<Rightarrow> bool option" where
  "validate_form f =
     (let nm = strip (m_name f); rl = strip (m_roll f);
          cs = strip (m_course f); mk = strip (m_marks f);
          ok_name = (\<not> (nm = [] \<or> list_ex (\<lambda>ch. \<not> name_char_ok ch) nm));
          ok_roll = (\<not> (rl = [] \<or> \<not> isdigit rl \<or> length rl > 12));
          ok_course = (cs \<noteq> [])
      in if \<not> isdigit mk then Some False
         else case py_int mk of
                None \<Rightarrow> None
              | Some m \<Rightarrow> Some (ok_name \<and> ok_roll \<and> ok_course \<and> 0 \<le> m \<and> m \<le> 100))"

subsection \<open>Add, update, delete\<close>

definition add_student :: "clock \<Rightarrow> form \<Rightarrow> app \<Rightarrow> outcome \<times> app" where
  "add_student clk f st =
     (case validate_form f of
        None \<Rightarrow> (Uncaught, st)
      | Some False \<Rightarrow> (ValidationWarning, st)
      | Some True \<Rightarrow>
          (case insert_auto clk (strip (m_name f)) (strip (m_roll f)) (strip (m_course f))
                  (the (py_int (strip (m_marks f)))) (db st) of
             Inl IntegrityError \<Rightarrow> (RollExists, st)
           | Inr d \<Rightarrow>
               (Added,
                st\<lparr>db := audit clk ''add'' st d,
                   undo_stack := undo_stack st @ [UDelete (strip (m_roll f))],
                   redo_stack := []\<rparr>)))"

definition update_student :: "clock \<Rightarrow> tree_row option \<Rightarrow> form \<Rightarrow> app \<Rightarrow> outcome \<times> app" where
  "update_student clk sel f st =
     (case sel of
        None \<Rightarrow> (SelectRow, st)
      | Some old \<Rightarrow>
          (case validate_form f of
             None \<Rightarrow> (Uncaught, st)
           | Some False \<Rightarrow> (ValidationWarning, st)
           | Some True \<Rightarrow>
               (case update_row (t_id old) (strip (m_name f)) (strip (m_roll f))
                       (strip (m_course f)) (the (py_int (strip (m_marks f)))) (db st) of
                  Inl IntegrityError \<Rightarrow> (RollConflict, st)
                | Inr d \<Rightarrow>
                    (Updated,
                     st\<lparr>db := audit clk ''update'' st d,
                        undo_stack := undo_stack st @ [UUpdate old],
                        redo_stack := []\<rparr>))))"

text \<open>In \<^verbatim>\<open>delete_student\<close>, \<^verbatim>\<open>dict(cur.fetchone())\<close> raises when no row has the
  selected id; the handler reports it and nothing was deleted.\<close>

definition delete_student :: "clock \<Rightarrow> tree_row option \<Rightarrow> bool \<Rightarrow> app \<Rightarrow> outcome \<times> app" where
  "delete_student clk sel confirm st =
     (case sel of
        None \<Rightarrow> (SelectRow, st)
      | Some r \<Rightarrow>
          (if current_role st = Some ''Guest'' then (GuestDenied, st)
           else if \<not> confirm then (Cancelled, st)
           else (case find (\<lambda>s. sid s = t_id r) (students (db st)) of
                   None \<Rightarrow> (DeleteError, st)
                 | Some old \<Rightarrow>
                     (Deleted,
                      st\<lparr>db := audit clk ''delete'' st (delete_id (t_id r) (db st)),
                         undo_stack := undo_stack st @ [UInsert old],
                         redo_stack := []\<rparr>))))"

subsection \<open>Undo and redo\<close>

text \<open>\<^verbatim>\<open>undo_action\<close> pops the entry before it tries the write, so an entry whose write
  raises is gone from the stack all the same.\<close>

definition undo_action :: "clock \<Rightarrow> app \<Rightarrow> outcome \<times> app" where
  "undo_action clk st =
     (if undo_stack st = [] then (NothingToUndo, st)
      else
        let st1 = st\<lparr>undo_stack := butlast (undo_stack st)\<rparr> in
        (case last (undo_stack st) of
          UDelete r \<Rightarrow>
            (UndoPerformed,
             st1\<lparr>db := audit clk ''undo_delete'' st (delete_roll r (db st)),
                 redo_stack := redo_stack st @ [RInsert r]\<rparr>)
        | UInsert row \<Rightarrow>
            (case insert_row row (db st) of
               Inl IntegrityError \<Rightarrow> (UndoError, st1)
             | Inr d \<Rightarrow>
                 (UndoPerformed,
                  st1\<lparr>db := audit clk ''undo_insert'' st d,
                      redo_stack := redo_stack st @ [RDelete (roll row)]\<rparr>))
        | UUpdate old \<Rightarrow>
            (case update_row (t_id old) (t_name old) (t_roll old) (t_course old)
                    (t_marks old) (db st) of
               Inl IntegrityError \<Rightarrow> (UndoError, st1)
             | Inr d \<Rightarrow>
                 (UndoPerformed,
                  st1\<lparr>db := audit clk ''undo_update'' st d,
                      redo_stack := redo_stack st @ [RUpdateRedo (t_id old)]\<rparr>))))"

definition redo_action :: "app \<Rightarrow> outcome \<times> app" where
  "redo_action st =
     (if redo_stack st = [] then (NothingToRedo, st)
      else (RedoExecuted, st\<lparr>redo_stack := butlast (redo_stack st)\<rparr>))"

section \<open>Search and paging\<close>

text \<open>
  SQLite's \<^verbatim>\<open>LIKE\<close>: \<^verbatim>\<open>%\<close> stands for any run of characters, \<^verbatim>\<open>_\<close> for one
  character, and ASCII letters match without regard to case. The search text goes
  into the pattern as typed, so its own \<^verbatim>\<open>%\<close> and \<^verbatim>\<open>_\<close> are wildcards too.
\<close>

fun like :: "string \<Rightarrow> string \<Rightarrow> bool" where
  "like [] s = (s = [])"
| "like (p # ps) [] = (p = CHR ''%'' \<and> like ps [])"
| "like (p # ps) (c # cs) =
     (if p = CHR ''%'' then like ps (c # cs) \<or> like (p # ps) cs
      else (p = CHR ''_'' \<or> ascii_lower p = ascii_lower c) \<and> like ps cs)"

text \<open>\<^verbatim>\<open>build_query_base\<close>: the rows the \<^verbatim>\<open>WHERE\<close> clause keeps, in scan order.\<close>

definition build_query_base :: "string \<Rightarrow> student list \<Rightarrow> student list" where
  "build_query_base search_text tbl =
     (let search = strip search_text in
      if search = [] then tbl
      else let pat = ''%'' @ search @ ''%'' in
           filter (\<lambda>s. like pat (roll s) \<or> like pat (name s) \<or> like pat (course s)) tbl)"

text \<open>The sort key of \<^verbatim>\<open>ORDER BY name COLLATE NOCASE\<close>: the name with ASCII capitals
  folded, compared code point by code point.\<close>

definition nocase :: "string \<Rightarrow> nat list" where
  "nocase s = map (\<lambda>c. code (ascii_lower c)) s"

definition name_key :: "student \<Rightarrow> nat list" where
  "name_key s = nocase (name s)"

text \<open>
  \<^verbatim>\<open>ORDER BY name COLLATE NOCASE\<close> with a \<^verbatim>\<open>LIMIT\<close>: SQLite sorts the rows of the
  scan in a temporary b-tree keyed by the sort key and then by the position in the
  scan, so rows of equal key come out in scan order. That is the stable sort
  \<^term>\<open>sort_key name_key\<close> of the rows in rowid order.
\<close>


text \<open>\<^verbatim>\<open>LIMIT n OFFSET k\<close>: a negative limit is no limit, a negative offset is none.\<close>

definition limit_offset :: "int \<Rightarrow> int \<Rightarrow> 'a list \<Rightarrow> 'a list" where
  "limit_offset n k xs =
     (let ys = drop (nat k) xs in if n < 0 then ys else take (nat n) ys)"

text \<open>The page count of \<^verbatim>\<open>load_page\<close> and \<^verbatim>\<open>next_page\<close>; \<open>None\<close> is the
  \<^verbatim>\<open>ZeroDivisionError\<close> of a page size 0.\<close>

definition total_pages :: "int \<Rightarrow> int \<Rightarrow> int option" where
  "total_pages n_rows per_page =
     (if per_page = 0 then None
      else Some (max 1 ((n_rows + per_page - 1) div per_page)))"

text \<open>
  The fields of the application behind the list view: the search entry, the page
  size, \<^verbatim>\<open>current_page\<close>, \<^verbatim>\<open>total_rows\<close>, the rows in the tree, and the two numbers
  of the label \<^verbatim>\<open>Page i / n\<close>.
\<close>

record view =
  search_text :: string
  page_size :: int
  current_page :: int
  total_rows :: int
  tree :: "student list"
  lbl_page :: "int \<times> int"

definition PAGE_SIZE_DEFAULT :: int where
  "PAGE_SIZE_DEFAULT = 50"

text \<open>\<^verbatim>\<open>refresh_status\<close> without a text counts all students into \<^verbatim>\<open>total_rows\<close>.\<close>

definition refresh_status :: "database \<Rightarrow> view \<Rightarrow> view" where
  "refresh_status d v = v\<lparr>total_rows := int (length (students d))\<rparr>"

text \<open>
  \<^verbatim>\<open>load_page\<close> returns whether it ran to its end. With a page size 0 the division
  raises after the tree was filled and before the label and \<^verbatim>\<open>refresh_status\<close>.
\<close>

definition load_page :: "database \<Rightarrow> int \<Rightarrow> view \<Rightarrow> bool \<times> view" where
  "load_page d page v =
     (let pg = max 0 page;
          offset = pg * page_size v;
          matching = build_query_base (search_text v) (students d);
          n_rows = int (length matching);
          v1 = v\<lparr>current_page := pg, total_rows := n_rows,
                 tree := limit_offset (page_size v) offset (sort_key name_key matching)\<rparr>
      in case total_pages n_rows (page_size v) of
           None \<Rightarrow> (False, v1)
         | Some n_pages \<Rightarrow> (True, refresh_status d (v1\<lparr>lbl_page := (pg + 1, n_pages)\<rparr>)))"

definition prev_page :: "database \<Rightarrow> view \<Rightarrow> bool \<times> view" where
  "prev_page d v =
     (if current_page v > 0 then load_page d (current_page v - 1) v else (True, v))"

definition next_page :: "database \<Rightarrow> view \<Rightarrow> bool \<times> view" where
  "next_page d v =
     (case total_pages (total_rows v) (page_size v) of
        None \<Rightarrow> (False, v)
      | Some n_pages \<Rightarrow>
          if current_page v + 1 < n_pages then load_page d (current_page v + 1) v
          else (True, v))"

definition clear_search :: "database \<Rightarrow> view \<Rightarrow> bool \<times> view" where
  "clear_search d v = load_page d 0 (v\<lparr>search_text := []\<rparr>)"

section \<open>Import\<close>

text \<open>
  \<^verbatim>\<open>import_file\<close> after pandas has read the file with \<^verbatim>\<open>dtype=str\<close>: a cell is a
  text, or \<open>None\<close> for the \<^verbatim>\<open>NaN\<close> pandas puts where the file has an empty field.
  A record holds the cells under the four headers the loop reads. The conversion
  \<^verbatim>\<open>int(float(s))\<close> of the interpreter is the parameter \<open>int_float\<close>, \<open>None\<close> where it
  raises; \<^verbatim>\<open>float(NaN)\<close> converts to no integer, and an integer outside 64 bits is
  refused when it is bound to the statement.
\<close>

type_synonym cell = "string option"

record import_row =
  r_name :: cell
  r_roll :: cell
  r_course :: cell
  r_marks :: cell

record data_frame =
  columns :: "string list"
  records :: "import_row list"

definition py_str :: "cell \<Rightarrow> string" where
  "py_str c = (case c of None \<Rightarrow> ''nan'' | Some s \<Rightarrow> s)"

definition int64 :: "int \<Rightarrow> bool" where
  "int64 m = (- (2 ^ 63) \<le> m \<and> m < 2 ^ 63)"

definition marks_of :: "(string \<Rightarrow> int option) \<Rightarrow> import_row \<Rightarrow> int option" where
  "marks_of int_float r =
     (case r_marks r of
        None \<Rightarrow> None
      | Some t \<Rightarrow>
          (case int_float t of
             None \<Rightarrow> None
           | Some m \<Rightarrow> if int64 m then Some m else None))"

text \<open>One turn of the loop: any exception skips the row and keeps the count.\<close>

definition import_one ::
  "(string \<Rightarrow> int option) \<Rightarrow> clock \<Rightarrow> import_row \<Rightarrow> database \<times> int \<Rightarrow> database \<times> int" where
  "import_one int_float clk r acc =
     (case marks_of int_float r of
        None \<Rightarrow> acc
      | Some m \<Rightarrow>
          (case insert_auto clk (py_str (r_name r)) (py_str (r_roll r)) (py_str (r_course r)) m
                  (fst acc) of
             Inl IntegrityError \<Rightarrow> acc
           | Inr d \<Rightarrow> (d, snd acc + 1)))"

definition expected :: "string list" where
  "expected = [''name'', ''roll'', ''course'', ''marks'']"

definition import_file ::
  "(string \<Rightarrow> int option) \<Rightarrow> clock \<Rightarrow> data_frame \<Rightarrow> app \<Rightarrow> outcome \<times> app" where
  "import_file int_float clk df st =
     (let cols = map (\<lambda>c. lower (strip c)) (columns df) in
      if \<not> set expected \<subseteq> set cols then (MissingColumns, st)
      else
        let acc = fold (import_one int_float clk) (records df) (db st, 0) in
        (ImportComplete (snd acc), st\<lparr>db := audit clk ''import'' st (fst acc)\<rparr>))"

text \<open>An instance of the conversion for worked examples: on a text of one to fifteen
  decimal digits \<^verbatim>\<open>int(float(s))\<close> is the number written, and the instance is used on
  such texts only.\<close>

definition int_float_digits :: "string \<Rightarrow> int option" where
  "int_float_digits s =
     (if s \<noteq> [] \<and> length s \<le> 15 \<and> list_all (\<lambda>c. 48 \<le> code c \<and> code c \<le> 57) s
      then py_int s else None)"

section \<open>Worked data\<close>

definition demo_clock :: clock where
  "demo_clock = \<lparr>sql_now = ''2024-01-01 10:00:00'', utc_now = ''2024-01-01T10:00:00''\<rparr>"

definition amy :: student where
  "amy = \<lparr>sid = 1, name = ''Amy'', roll = ''1'', course = ''CS'', marks = 90,
           created_at = ''2023-09-01 08:00:00''\<rparr>"

definition bob :: student where
  "bob = \<lparr>sid = 2, name = ''bob'', roll = ''2'', course = ''CS'', marks = 80,
           created_at = ''2023-09-02 08:00:00''\<rparr>"

definition empty_db :: database where
  "empty_db = init_db \<lparr>students = [], seq = 0, audit_log = [], users = []\<rparr>"

definition demo_db :: database where
  "demo_db = empty_db\<lparr>students := [amy, bob], seq := 2\<rparr>"

definition session :: "database \<Rightarrow> string \<Rightarrow> app" where
  "session d r = \<lparr>db = d, current_user = Some ''u'', current_role = Some r,
                  undo_stack = [], redo_stack = []\<rparr>"

definition logged_out :: "database \<Rightarrow> app" where
  "logged_out d = \<lparr>db = d, current_user = None, current_role = None,
                   undo_stack = [], redo_stack = []\<rparr>"

definition pick :: "student \<Rightarrow> tree_row" where
  "pick s = \<lparr>t_id = sid s, t_name = name s, t_roll = roll s, t_course = course s,
             t_marks = marks s\<rparr>"

definition entry :: "string \<Rightarrow> string \<Rightarrow> string \<Rightarrow> string \<Rightarrow> form" where
  "entry n r c m = \<lparr>m_name = n, m_roll = r, m_course = c, m_marks = m\<rparr>"

text \<open>The two rows of the import example, the empty name once as pandas delivers it
  (\<^verbatim>\<open>NaN\<close>) and once as the empty text.\<close>

definition two_rows :: "cell \<Rightarrow> data_frame" where
  "two_rows blank =
     \<lparr>columns = [''name'', ''roll'', ''course'', ''marks''],
      records =
        [\<lparr>r_name = Some ''Amy'', r_roll = Some ''1'', r_course = Some ''CS'', r_marks = Some ''90''\<rparr>,
         \<lparr>r_name = blank, r_roll = Some ''2'', r_course = Some ''CS'', r_marks = Some ''80''\<rparr>]\<rparr>"


text \<open>Five students, entered in an order that is not the order of their names.\<close>

definition pupil :: "int \<Rightarrow> string \<Rightarrow> student" where
  "pupil i n = \<lparr>sid = i, name = n, roll = [char_of (48 + nat i)], course = ''CS'', marks = 50,
                 created_at = ''2023-09-01 08:00:00''\<rparr>"

definition five_db :: database where
  "five_db = empty_db\<lparr>students := [pupil 1 ''dan'', pupil 2 ''Amy'', pupil 3 ''carl'',
                                   pupil 4 ''Bea'', pupil 5 ''eve''], seq := 5\<rparr>"

text \<open>
  A run: Amy is added with roll 1 and updated to roll 2; an import brings Zed with
  roll 1; the undo of the update is tried and refused for the roll conflict.
\<close>

definition zed_file :: data_frame where
  "zed_file = \<lparr>columns = [''name'', ''roll'', ''course'', ''marks''],
               records = [\<lparr>r_name = Some ''Zed'', r_roll = Some ''1'', r_course = Some ''CS'',
                           r_marks = Some ''55''\<rparr>]\<rparr>"

definition run_added :: app where
  "run_added =
     snd (add_student demo_clock (entry ''Amy'' ''1'' ''CS'' ''90'') (session empty_db ''Admin''))"

definition run_updated :: app where
  "run_updated =
     snd (update_student demo_clock
            (Some \<lparr>t_id = 1, t_name = ''Amy'', t_roll = ''1'', t_course = ''CS'', t_marks = 90\<rparr>)
            (entry ''Amy'' ''2'' ''CS'' ''90'') run_added)"

definition run_imported :: app where
  "run_imported = snd (import_file int_float_digits demo_clock zed_file run_updated)"

definition run_refused :: app where
  "run_refused = snd (undo_action demo_clock run_imported)"

text \<open>The list view of a fresh application, and one with page size 2.\<close>

definition fresh_view :: view where
  "fresh_view = \<lparr>search_text = [], page_size = PAGE_SIZE_DEFAULT, current_page = 0,
                  total_rows = 0, tree = [], lbl_page = (1, 1)\<rparr>"

definition pairs_view :: view where
  "pairs_view = fresh_view\<lparr>page_size := 2\<rparr>"

text \<open>A credential table edited by hand, with a padded password.\<close>

definition padded_db :: database where
  "padded_db =
     empty_db\<lparr>users := [\<lparr>username = ''bob'', password = '' pw '', user_role = ''Teacher''\<rparr>]\<rparr>"

section \<open>Delete and undo\<close>

lemma students_audit: "students (audit c a t d) = students d"
  by (simp add: audit_def log_audit_def)

lemma find_by_id:
  "sorted_wrt (<) (map sid xs) \<Longrightarrow> s \<in> set xs \<Longrightarrow> find (\<lambda>x. sid x = sid s) xs = Some s"
  by (induction xs) auto

lemma filter_id_absent:
  "\<forall>x\<in>set xs. sid s < sid x \<Longrightarrow> filter (\<lambda>x. sid x \<noteq> sid s) xs = xs"
  by (induction xs) auto

lemma insort_removed:
  "sorted_wrt (<) (map sid xs) \<Longrightarrow> s \<in> set xs \<Longrightarrow>
   insort_key sid s (filter (\<lambda>x. sid x \<noteq> sid s) xs) = xs"
proof (induction xs)
  case Nil
  then show ?case by simp
next
  case (Cons a xs)
  show ?case
  proof (cases "s = a")
    case True
    have above: "\<forall>x\<in>set xs. sid s < sid x" using Cons.prems True by auto
    then have "filter (\<lambda>x. sid x \<noteq> sid s) xs = xs" by (rule filter_id_absent)
    moreover have "insort_key sid s xs = s # xs"
      using above by (cases xs) auto
    ultimately show ?thesis using True by simp
  next
    case False
    then have "s \<in> set xs" using Cons.prems by simp
    moreover have "sid a < sid s" using Cons.prems \<open>s \<in> set xs\<close> by auto
    ultimately show ?thesis using Cons by auto
  qed
qed

lemma roll_absent_after_delete:
  "distinct (map roll xs) \<Longrightarrow> s \<in> set xs \<Longrightarrow>
   roll s \<notin> roll ` set (filter (\<lambda>x. sid x \<noteq> sid s) xs)"
proof
  assume a: "distinct (map roll xs)" "s \<in> set xs"
    and "roll s \<in> roll ` set (filter (\<lambda>x. sid x \<noteq> sid s) xs)"
  then obtain x where x: "x \<in> set xs" "sid x \<noteq> sid s" "roll x = roll s" by auto
  from a(1) x(1) a(2) x(3) have "x = s" by (meson distinct_map inj_onD)
  with x(2) show False by simp
qed

lemma demo_students: "students demo_db = [amy, bob]"
  by (simp add: demo_db_def)

lemma demo_table_ok: "table_ok demo_db"
  by (simp add: table_ok_def demo_students amy_def bob_def)

text \<open>
  Claim C1. For a stored row, a delete that is carried out (the session is not a
  guest's, the dialog is confirmed) followed at once by undo re-inserts the row with
  all six fields, and the student table is the table before the delete.
\<close>

theorem delete_undo_restores:
  assumes "table_ok (db st)" and "s \<in> set (students (db st))"
    and "current_role st \<noteq> Some ''Guest''" and "t_id sel = sid s"
  shows "fst (delete_student clk (Some sel) True st) = Deleted
    \<and> s \<notin> set (students (db (snd (delete_student clk (Some sel) True st))))
    \<and> fst (undo_action clk' (snd (delete_student clk (Some sel) True st))) = UndoPerformed
    \<and> students (db (snd (undo_action clk' (snd (delete_student clk (Some sel) True st)))))
        = students (db st)"
proof -
  let ?xs = "students (db st)"
  have srt: "sorted_wrt (<) (map sid ?xs)" and dst: "distinct (map roll ?xs)"
    using assms(1) by (simp_all add: table_ok_def)
  have f: "find (\<lambda>x. sid x = t_id sel) ?xs = Some s"
    using find_by_id [OF srt assms(2)] assms(4) by simp
  have d: "delete_student clk (Some sel) True st =
      (Deleted, st\<lparr>db := audit clk ''delete'' st (delete_id (sid s) (db st)),
                    undo_stack := undo_stack st @ [UInsert s], redo_stack := []\<rparr>)"
    using assms(3,4) f by (simp add: delete_student_def)
  have ids: "sid s \<notin> sid ` set (filter (\<lambda>x. sid x \<noteq> sid s) ?xs)" by auto
  have rolls: "roll s \<notin> roll ` set (filter (\<lambda>x. sid x \<noteq> sid s) ?xs)"
    by (rule roll_absent_after_delete [OF dst assms(2)])
  have ins: "insert_row s (audit clk ''delete'' st (delete_id (sid s) (db st))) =
      Inr ((audit clk ''delete'' st (delete_id (sid s) (db st)))
             \<lparr>students := ?xs, seq := max (seq (db st)) (sid s)\<rparr>)"
    using ids rolls insort_removed [OF srt assms(2)]
    by (simp add: insert_row_def audit_def log_audit_def delete_id_def)
  have gone: "s \<notin> set (students (audit clk ''delete'' st (delete_id (sid s) (db st))))"
    by (simp add: students_audit delete_id_def)
  show ?thesis
    unfolding d using gone by (simp add: undo_action_def ins Let_def students_audit)
qed

theorem delete_undo_restores_witness:
  "table_ok (db (session demo_db ''Admin'')) \<and> amy \<in> set (students (db (session demo_db ''Admin'')))
   \<and> current_role (session demo_db ''Admin'') \<noteq> Some ''Guest'' \<and> t_id (pick amy) = sid amy
   \<and> students (db (snd (delete_student demo_clock (Some (pick amy)) True
         (session demo_db ''Admin'')))) = [bob]
   \<and> students (db (snd (undo_action demo_clock
         (snd (delete_student demo_clock (Some (pick amy)) True (session demo_db ''Admin''))))))
      = [amy, bob]"
proof -
  have b: "students (db (snd (delete_student demo_clock (Some (pick amy)) True
         (session demo_db ''Admin'')))) = [bob]"
    by (simp add: delete_student_def session_def demo_students pick_def students_audit
        delete_id_def amy_def bob_def)
  show ?thesis
    using delete_undo_restores [of "session demo_db ''Admin''" amy "pick amy" demo_clock demo_clock] b
    by (simp add: session_def demo_table_ok demo_students pick_def)
qed

section \<open>Redo\<close>

text \<open>
  Claim C8. \<^verbatim>\<open>redo_action\<close> writes nothing to the database. In a state reached by a
  performed undo it pops the entry the undo pushed and reports success, and the
  student table stays as the undo left it.
\<close>

theorem redo_never_writes:
  "db (snd (redo_action st)) = db st
   \<and> (undo_action clk st0 = (UndoPerformed, st) \<longrightarrow>
        redo_action st = (RedoExecuted, st\<lparr>redo_stack := redo_stack st0\<rparr>)
        \<and> students (db (snd (redo_action st))) = students (db st))"
  by (auto simp add: redo_action_def undo_action_def Let_def
      split: if_splits undo_entry.splits sum.splits sql_error.splits)

theorem redo_never_writes_witness:
  "undo_action demo_clock ((session demo_db ''Admin'')\<lparr>undo_stack := [UDelete ''2'']\<rparr>)
     = (UndoPerformed,
        \<lparr>db = audit demo_clock ''undo_delete'' (session demo_db ''Admin'')
                (demo_db\<lparr>students := [amy]\<rparr>),
         current_user = Some ''u'', current_role = Some ''Admin'',
         undo_stack = [], redo_stack = [RInsert ''2'']\<rparr>)
   \<and> students (db (snd (redo_action
        \<lparr>db = audit demo_clock ''undo_delete'' (session demo_db ''Admin'')
                (demo_db\<lparr>students := [amy]\<rparr>),
         current_user = Some ''u'', current_role = Some ''Admin'',
         undo_stack = [], redo_stack = [RInsert ''2'']\<rparr>))) = [amy]"
proof -
  have u: "undo_action demo_clock ((session demo_db ''Admin'')\<lparr>undo_stack := [UDelete ''2'']\<rparr>)
     = (UndoPerformed,
        \<lparr>db = audit demo_clock ''undo_delete'' (session demo_db ''Admin'')
                (demo_db\<lparr>students := [amy]\<rparr>),
         current_user = Some ''u'', current_role = Some ''Admin'',
         undo_stack = [], redo_stack = [RInsert ''2'']\<rparr>)"
    by (simp add: undo_action_def session_def delete_roll_def demo_students amy_def bob_def
        audit_def)
  show ?thesis
    using u redo_never_writes [of
        "\<lparr>db = audit demo_clock ''undo_delete'' (session demo_db ''Admin'')
                (demo_db\<lparr>students := [amy]\<rparr>),
         current_user = Some ''u'', current_role = Some ''Admin'',
         undo_stack = [], redo_stack = [RInsert ''2'']\<rparr>"
        demo_clock "(session demo_db ''Admin'')\<lparr>undo_stack := [UDelete ''2'']\<rparr>"]
    by (simp add: students_audit)
qed

section \<open>Two adds with one roll\<close>

text \<open>
  Claim C3, amended. In a store where no row carries the roll yet, of two adds with
  that roll and valid fields the first succeeds and the second is refused as a
  duplicate roll; the refused add leaves the application state untouched, so the table
  has grown by exactly one row. (In a store that already holds the roll the first
  add is refused as well.)
\<close>

theorem same_roll_twice:
  assumes "validate_form f1 = Some True" and "validate_form f2 = Some True"
    and "strip (m_roll f2) = strip (m_roll f1)"
    and "strip (m_roll f1) \<notin> roll ` set (students (db st))"
  shows "fst (add_student clk f1 st) = Added
    \<and> add_student clk' f2 (snd (add_student clk f1 st))
        = (RollExists, snd (add_student clk f1 st))
    \<and> length (students (db (snd (add_student clk' f2 (snd (add_student clk f1 st))))))
        = length (students (db st)) + 1"
proof -
  obtain d where d: "insert_auto clk (strip (m_name f1)) (strip (m_roll f1)) (strip (m_course f1))
        (the (py_int (strip (m_marks f1)))) (db st) = Inr d"
      and r: "strip (m_roll f1) \<in> roll ` set (students d)"
      and n: "length (students d) = length (students (db st)) + 1"
    using assms(4) by (simp add: insert_auto_def)
  have one: "add_student clk f1 st =
      (Added, st\<lparr>db := audit clk ''add'' st d,
                  undo_stack := undo_stack st @ [UDelete (strip (m_roll f1))],
                  redo_stack := []\<rparr>)"
    using assms(1) d by (simp add: add_student_def)
  have two: "insert_auto clk' (strip (m_name f2)) (strip (m_roll f2)) (strip (m_course f2))
        (the (py_int (strip (m_marks f2)))) (audit clk ''add'' st d) = Inl IntegrityError"
    using r assms(3) by (simp add: insert_auto_def students_audit)
  show ?thesis
    unfolding one using assms(2) two n by (simp add: add_student_def students_audit)
qed

theorem same_roll_twice_witness:
  "validate_form (entry ''Cy'' ''3'' ''CS'' ''70'') = Some True
   \<and> validate_form (entry ''Di'' '' 3 '' ''EE'' ''60'') = Some True
   \<and> strip (m_roll (entry ''Di'' '' 3 '' ''EE'' ''60'')) = strip (m_roll (entry ''Cy'' ''3'' ''CS'' ''70''))
   \<and> strip (m_roll (entry ''Cy'' ''3'' ''CS'' ''70'')) \<notin> roll ` set (students (db (session demo_db ''Admin'')))
   \<and> fst (add_student demo_clock (entry ''Cy'' ''3'' ''CS'' ''70'') (session demo_db ''Admin'')) = Added
   \<and> fst (add_student demo_clock (entry ''Di'' '' 3 '' ''EE'' ''60'')
        (snd (add_student demo_clock (entry ''Cy'' ''3'' ''CS'' ''70'') (session demo_db ''Admin''))))
      = RollExists
   \<and> length (students (db (snd (add_student demo_clock (entry ''Di'' '' 3 '' ''EE'' ''60'')
        (snd (add_student demo_clock (entry ''Cy'' ''3'' ''CS'' ''70'') (session demo_db ''Admin'')))))))
      = 3"
proof -
  have v1: "validate_form (entry ''Cy'' ''3'' ''CS'' ''70'') = Some True"
    by (simp add: validate_form_def entry_def strip_def py_isspace_def code_def
        name_char_ok_def py_isalpha_def isdigit_def py_isdigit_char_def py_int_def)
  have v2: "validate_form (entry ''Di'' '' 3 '' ''EE'' ''60'') = Some True"
    by (simp add: validate_form_def entry_def strip_def py_isspace_def code_def
        name_char_ok_def py_isalpha_def isdigit_def py_isdigit_char_def py_int_def)
  have s: "strip (m_roll (entry ''Di'' '' 3 '' ''EE'' ''60'')) = strip (m_roll (entry ''Cy'' ''3'' ''CS'' ''70''))"
    by (simp add: entry_def strip_def py_isspace_def code_def)
  have fresh: "strip (m_roll (entry ''Cy'' ''3'' ''CS'' ''70'')) \<notin> roll ` set (students (db (session demo_db ''Admin'')))"
    by (simp add: entry_def strip_def py_isspace_def code_def session_def demo_students amy_def bob_def)
  have n: "length (students (db (session demo_db ''Admin''))) = 2"
    by (simp add: session_def demo_students)
  note th = same_roll_twice [OF v1 v2 s fresh, of demo_clock demo_clock]
  have c1: "fst (add_student demo_clock (entry ''Cy'' ''3'' ''CS'' ''70'') (session demo_db ''Admin'')) = Added"
    using th by (rule conjunct1)
  have c2: "fst (add_student demo_clock (entry ''Di'' '' 3 '' ''EE'' ''60'')
        (snd (add_student demo_clock (entry ''Cy'' ''3'' ''CS'' ''70'') (session demo_db ''Admin''))))
      = RollExists"
    using th [THEN conjunct2, THEN conjunct1] by (rule arg_cong [where f = fst, THEN trans]) simp
  have c3: "length (students (db (snd (add_student demo_clock (entry ''Di'' '' 3 '' ''EE'' ''60'')
        (snd (add_student demo_clock (entry ''Cy'' ''3'' ''CS'' ''70'') (session demo_db ''Admin'')))))))
      = 3"
    using th [THEN conjunct2, THEN conjunct2] n by linarith
  show ?thesis
    using v1 v2 s fresh c1 c2 c3 by blast
qed

theorem same_roll_twice_counterexample:
  "validate_form (entry ''Cy'' ''1'' ''CS'' ''70'') = Some True
   \<and> fst (add_student demo_clock (entry ''Cy'' ''1'' ''CS'' ''70'') (session demo_db ''Admin''))
       = RollExists
   \<and> length (students (db (snd (add_student demo_clock (entry ''Cy'' ''1'' ''CS'' ''70'')
        (snd (add_student demo_clock (entry ''Cy'' ''1'' ''CS'' ''70'') (session demo_db ''Admin'')))))))
      = length (students (db (session demo_db ''Admin'')))"
  by (simp add: add_student_def validate_form_def entry_def strip_def py_isspace_def code_def
      name_char_ok_def py_isalpha_def isdigit_def py_isdigit_char_def py_int_def
      insert_auto_def session_def demo_students amy_def bob_def)

section \<open>Update of an id that is not stored\<close>

lemma update_no_match:
  "i \<notin> sid ` set xs \<Longrightarrow> map (\<lambda>s. if sid s = i then g s else s) xs = xs"
  by (induction xs) auto

text \<open>
  Claim C4, amended. An update whose target id is in no row leaves the student table
  unchanged, and with a valid form it is reported as a success: the statement matches
  no row and raises nothing, so the operation logs the update and pushes an undo
  entry. Only a missing selection is turned down for want of a target.
\<close>

theorem update_absent_id:
  assumes "t_id old \<notin> sid ` set (students (db st))"
  shows "students (db (snd (update_student clk (Some old) f st))) = students (db st)
    \<and> (validate_form f = Some True \<longrightarrow>
         update_student clk (Some old) f st =
           (Updated, st\<lparr>db := audit clk ''update'' st (db st),
                         undo_stack := undo_stack st @ [UUpdate old], redo_stack := []\<rparr>))
    \<and> update_student clk None f st = (SelectRow, st)"
proof -
  have u: "update_row (t_id old) n r c m (db st) = Inr (db st)" for n r c m
    using assms by (simp add: update_row_def update_no_match)
  show ?thesis
    by (simp add: update_student_def u students_audit split: option.splits bool.splits)
qed

theorem update_absent_id_witness:
  "t_id ((pick amy)\<lparr>t_id := 99\<rparr>) \<notin> sid ` set (students (db (session demo_db ''Admin'')))
   \<and> validate_form (entry ''Cy'' ''7'' ''CS'' ''80'') = Some True
   \<and> fst (update_student demo_clock (Some ((pick amy)\<lparr>t_id := 99\<rparr>))
        (entry ''Cy'' ''7'' ''CS'' ''80'') (session demo_db ''Admin'')) = Updated
   \<and> students (db (snd (update_student demo_clock (Some ((pick amy)\<lparr>t_id := 99\<rparr>))
        (entry ''Cy'' ''7'' ''CS'' ''80'') (session demo_db ''Admin'')))) = [amy, bob]"
proof -
  have a: "t_id ((pick amy)\<lparr>t_id := 99\<rparr>) \<notin> sid ` set (students (db (session demo_db ''Admin'')))"
    by (simp add: session_def demo_students amy_def bob_def)
  have v: "validate_form (entry ''Cy'' ''7'' ''CS'' ''80'') = Some True"
    by (simp add: validate_form_def entry_def strip_def py_isspace_def code_def
        name_char_ok_def py_isalpha_def isdigit_def py_isdigit_char_def py_int_def)
  have t: "students (db (session demo_db ''Admin'')) = [amy, bob]"
    by (simp add: session_def demo_students)
  note th = update_absent_id [OF a, of demo_clock "entry ''Cy'' ''7'' ''CS'' ''80''"]
  have c1: "students (db (snd (update_student demo_clock (Some ((pick amy)\<lparr>t_id := 99\<rparr>))
        (entry ''Cy'' ''7'' ''CS'' ''80'') (session demo_db ''Admin'')))) = [amy, bob]"
    using th [THEN conjunct1] t by (rule trans)
  have c2: "fst (update_student demo_clock (Some ((pick amy)\<lparr>t_id := 99\<rparr>))
        (entry ''Cy'' ''7'' ''CS'' ''80'') (session demo_db ''Admin'')) = Updated"
    using th [THEN conjunct2, THEN conjunct1, rule_format, OF v]
    by (rule arg_cong [where f = fst, THEN trans]) simp
  show ?thesis
    using a v c1 c2 by blast
qed

theorem update_absent_id_counterexample:
  "99 \<notin> sid ` set (students (db (session demo_db ''Admin'')))
   \<and> fst (update_student demo_clock (Some ((pick amy)\<lparr>t_id := 99\<rparr>))
        (entry ''Cy'' ''7'' ''CS'' ''80'') (session demo_db ''Admin'')) = Updated
   \<and> undo_stack (snd (update_student demo_clock (Some ((pick amy)\<lparr>t_id := 99\<rparr>))
        (entry ''Cy'' ''7'' ''CS'' ''80'') (session demo_db ''Admin'')))
      = [UUpdate ((pick amy)\<lparr>t_id := 99\<rparr>)]"
  by (simp add: update_student_def validate_form_def entry_def strip_def py_isspace_def code_def
      name_char_ok_def py_isalpha_def isdigit_def py_isdigit_char_def py_int_def
      update_row_def session_def demo_students amy_def bob_def pick_def)

section \<open>Login\<close>

lemma strip_padded:
  assumes "trimmed s" and "list_all py_isspace l" and "list_all py_isspace r"
  shows "strip (l @ s @ r) = s"
proof -
  from assms(1) obtain a t where s: "s = a # t" and a: "\<not> py_isspace a"
    by (cases s) (auto simp: trimmed_def)
  have front: "dropWhile py_isspace (l @ s @ r) = s @ r"
    using assms(2) a s by (induction l) auto
  have "rev s \<noteq> []" using s by simp
  then obtain b u where rs: "rev s = b # u" by (cases "rev s") auto
  have "b = last s" using rs by (metis last_rev list.sel(1) rev_rev_ident)
  then have b: "\<not> py_isspace b" using assms(1) by (simp add: trimmed_def)
  have "list_all py_isspace (rev r)" using assms(3) by (simp add: list_all_iff)
  then have tail_end: "dropWhile py_isspace (rev r @ rev s) = rev s"
    using b rs by (induction "rev r" arbitrary: r) (auto simp: list_all_iff dropWhile_append)
  show ?thesis
    by (simp add: strip_def front tail_end)
qed

lemma find_credential:
  "distinct (map username xs) \<Longrightarrow> c \<in> set xs \<Longrightarrow>
   find (\<lambda>x. username x = username c \<and> password x = password c) xs = Some c"
  by (induction xs) (auto simp: rev_image_eqI)

text \<open>
  Claim C10, amended. \<^verbatim>\<open>handle_login\<close> strips both inputs before the comparison. For
  a stored credential whose username and password are not empty and have no
  whitespace at either end (as the two seeded accounts), an input pair that differs
  from it only by surrounding whitespace logs in with the credential's role. (A
  stored password with whitespace at an end matches no input at all.)
\<close>

theorem login_ignores_padding:
  assumes "c \<in> set (users (db st))" and "distinct (map username (users (db st)))"
    and "trimmed (username c)" and "trimmed (password c)"
    and "list_all py_isspace l1" and "list_all py_isspace r1"
    and "list_all py_isspace l2" and "list_all py_isspace r2"
  shows "handle_login clk (l1 @ username c @ r1) (l2 @ password c @ r2) st =
    (LoggedIn,
     st\<lparr>current_user := Some (username c), current_role := Some (user_role c),
        db := log_audit clk (Some (username c)) (Some (user_role c)) ''login'' (db st)\<rparr>)"
proof -
  have u: "strip (l1 @ username c @ r1) = username c"
    by (rule strip_padded [OF assms(3,5,6)])
  have p: "strip (l2 @ password c @ r2) = password c"
    by (rule strip_padded [OF assms(4,7,8)])
  have ne: "username c \<noteq> []" "password c \<noteq> []"
    using assms(3,4) by (simp_all add: trimmed_def)
  show ?thesis
    unfolding handle_login_def u p Let_def
    using ne find_credential [OF assms(2,1)] by simp
qed

theorem login_ignores_padding_witness:
  "\<lparr>username = ''admin'', password = ''admin'', user_role = ''Admin''\<rparr> \<in> set (users (db (logged_out empty_db)))
   \<and> distinct (map username (users (db (logged_out empty_db))))
   \<and> trimmed ''admin'' \<and> list_all py_isspace '' '' \<and> list_all py_isspace []
   \<and> fst (handle_login demo_clock ('' '' @ ''admin'' @ '' '') ([] @ ''admin'' @ '' '')
        (logged_out empty_db)) = LoggedIn
   \<and> current_role (snd (handle_login demo_clock ('' '' @ ''admin'' @ '' '') ([] @ ''admin'' @ '' '')
        (logged_out empty_db))) = Some ''Admin''"
proof -
  let ?c = "\<lparr>username = ''admin'', password = ''admin'', user_role = ''Admin''\<rparr>"
  have m: "?c \<in> set (users (db (logged_out empty_db)))"
    by (simp add: logged_out_def empty_db_def init_db_def)
  have d: "distinct (map username (users (db (logged_out empty_db))))"
    by (simp add: logged_out_def empty_db_def init_db_def)
  have t: "trimmed ''admin''"
    by (simp add: trimmed_def py_isspace_def code_def)
  have w: "list_all py_isspace '' ''" "list_all py_isspace []"
    by (simp_all add: py_isspace_def code_def)
  have tu: "trimmed (username ?c)" and tp: "trimmed (password ?c)" using t by simp_all
  note th = login_ignores_padding [OF m d tu tp w(1) w(1) w(2) w(1), of demo_clock]
  have c1: "fst (handle_login demo_clock ('' '' @ ''admin'' @ '' '') ([] @ ''admin'' @ '' '')
        (logged_out empty_db)) = LoggedIn"
    using th by simp
  have c2: "current_role (snd (handle_login demo_clock ('' '' @ ''admin'' @ '' '') ([] @ ''admin'' @ '' '')
        (logged_out empty_db))) = Some ''Admin''"
    using th by simp
  show ?thesis using m d t w c1 c2 by blast
qed

theorem login_ignores_padding_counterexample:
  "\<lparr>username = ''bob'', password = '' pw '', user_role = ''Teacher''\<rparr>
     \<in> set (users (db (logged_out padded_db)))
   \<and> handle_login demo_clock ''bob'' '' pw '' (logged_out padded_db)
       = (LoginFailed, logged_out padded_db)"
  by (simp add: handle_login_def strip_def py_isspace_def code_def logged_out_def
      padded_db_def empty_db_def init_db_def)

section \<open>The page count\<close>

lemma div_quotient:
  fixes q r ps :: int
  shows "0 \<le> r \<Longrightarrow> r < ps \<Longrightarrow> (q * ps + r) div ps = q"
  by (simp add: div_pos_pos_trivial)

lemma round_up_div:
  fixes t ps :: int
  assumes "0 < ps"
  shows "(t + ps - 1) div ps = - ((- t) div ps)"
proof -
  define q where "q = t div ps"
  define r where "r = t mod ps"
  have qr: "t = q * ps + r" "0 \<le> r" "r < ps"
    using assms by (simp_all add: q_def r_def)
  show ?thesis
  proof (cases "r = 0")
    case True
    have a: "t + ps - 1 = q * ps + (ps - 1)" using qr True by simp
    have "(t + ps - 1) div ps = q" unfolding a using assms by (intro div_quotient) simp_all
    moreover have b: "- t = (- q) * ps + 0" using True qr by simp
    have "(- t) div ps = - q" unfolding b using assms by (intro div_quotient) simp_all
    ultimately show ?thesis by simp
  next
    case False
    have a: "t + ps - 1 = (q + 1) * ps + (r - 1)" using qr by (simp add: algebra_simps)
    have "(t + ps - 1) div ps = q + 1" unfolding a using qr False assms
      by (intro div_quotient) simp_all
    moreover have b: "- t = (- q - 1) * ps + (ps - r)" using qr by (simp add: algebra_simps)
    have "(- t) div ps = - q - 1" unfolding b using qr False assms
      by (intro div_quotient) simp_all
    ultimately show ?thesis by simp
  qed
qed

lemma total_pages_eq_ceiling:
  "0 \<le> t \<Longrightarrow> 0 < ps \<Longrightarrow>
   total_pages t ps = Some (if t = 0 then 1 else \<lceil>real_of_int t / real_of_int ps\<rceil>)"
proof -
  assume t: "0 \<le> t" and ps: "0 < ps"
  have "0 < t \<Longrightarrow> - t div ps < 0"
    using ps by (simp add: pos_imp_zdiv_neg_iff)
  then show ?thesis using t ps
    by (auto simp add: total_pages_def ceiling_divide_eq_div round_up_div)
qed

text \<open>
  Claim C6. With a page size above 0, \<^verbatim>\<open>load_page\<close> runs to its end and the page
  count in its label is the ceiling of the number of rows matching the filter over
  the page size, and 1 when no row matches; the same holds of the formula for every
  number of rows from 0 on. \<^verbatim>\<open>next_page\<close> applies that formula to \<^verbatim>\<open>total_rows\<close> and
  loads the next page when there is one.
\<close>

theorem load_page_count_ceiling:
  assumes "0 < page_size v"
  shows "fst (load_page d pg v)
    \<and> snd (lbl_page (snd (load_page d pg v))) =
        (if build_query_base (search_text v) (students d) = [] then 1
         else \<lceil>real (length (build_query_base (search_text v) (students d)))
                 / real_of_int (page_size v)\<rceil>)
    \<and> (0 \<le> t \<longrightarrow>
         total_pages t (page_size v) =
           Some (if t = 0 then 1 else \<lceil>real_of_int t / real_of_int (page_size v)\<rceil>))
    \<and> (0 \<le> total_rows v \<longrightarrow>
         next_page d v =
           (if current_page v + 1
                 < (if total_rows v = 0 then 1
                    else \<lceil>real_of_int (total_rows v) / real_of_int (page_size v)\<rceil>)
            then load_page d (current_page v + 1) v else (True, v)))"
proof -
  let ?m = "build_query_base (search_text v) (students d)"
  have tp: "total_pages (int (length ?m)) (page_size v) =
      Some (if int (length ?m) = 0 then 1
            else \<lceil>real_of_int (int (length ?m)) / real_of_int (page_size v)\<rceil>)"
    using assms by (intro total_pages_eq_ceiling) simp_all
  have a: "fst (load_page d pg v)"
    by (simp add: load_page_def Let_def tp)
  have b: "snd (lbl_page (snd (load_page d pg v))) =
        (if ?m = [] then 1 else \<lceil>real (length ?m) / real_of_int (page_size v)\<rceil>)"
    by (simp add: load_page_def Let_def tp refresh_status_def)
  have c: "0 \<le> t \<Longrightarrow> total_pages t (page_size v) =
           Some (if t = 0 then 1 else \<lceil>real_of_int t / real_of_int (page_size v)\<rceil>)"
    using assms by (simp add: total_pages_eq_ceiling)
  have e: "0 \<le> total_rows v \<Longrightarrow>
         next_page d v =
           (if current_page v + 1
                 < (if total_rows v = 0 then 1
                    else \<lceil>real_of_int (total_rows v) / real_of_int (page_size v)\<rceil>)
            then load_page d (current_page v + 1) v else (True, v))"
    using assms by (simp add: next_page_def total_pages_eq_ceiling)
  show ?thesis using a b c e by blast
qed

lemma five_first_page:
  "load_page five_db 0 pairs_view =
     (True, pairs_view\<lparr>total_rows := 5, tree := [pupil 2 ''Amy'', pupil 4 ''Bea''],
                       lbl_page := (1, 3)\<rparr>)"
  by (simp add: load_page_def build_query_base_def strip_def limit_offset_def total_pages_def
      refresh_status_def pairs_view_def fresh_view_def PAGE_SIZE_DEFAULT_def
      five_db_def pupil_def name_key_def nocase_def ascii_lower_def code_def)

theorem load_page_count_ceiling_witness:
  "0 < page_size pairs_view
   \<and> fst (load_page five_db 0 pairs_view)
   \<and> snd (lbl_page (snd (load_page five_db 0 pairs_view))) = 3
   \<and> total_pages 0 (page_size pairs_view) = Some 1
   \<and> current_page (snd (next_page five_db (snd (load_page five_db 0 pairs_view)))) = 1"
proof -
  have p: "0 < page_size pairs_view"
    by (simp add: pairs_view_def fresh_view_def)
  have q: "0 < page_size (snd (load_page five_db 0 pairs_view))"
    by (simp add: five_first_page) (simp add: pairs_view_def fresh_view_def)
  note th = load_page_count_ceiling [OF p, of five_db 0 0]
  note th2 = load_page_count_ceiling [OF q, of five_db 0 0]
  have c1: "fst (load_page five_db 0 pairs_view)" using th by (rule conjunct1)
  have c2: "snd (lbl_page (snd (load_page five_db 0 pairs_view))) = 3"
    by (simp add: five_first_page)
  have c3: "total_pages 0 (page_size pairs_view) = Some 1"
    using th [THEN conjunct2, THEN conjunct2, THEN conjunct1] by simp
  have n: "next_page five_db (snd (load_page five_db 0 pairs_view))
      = load_page five_db 1 (snd (load_page five_db 0 pairs_view))"
    using th2 [THEN conjunct2, THEN conjunct2, THEN conjunct2]
    by (simp add: five_first_page) (simp add: pairs_view_def fresh_view_def)
  have c4: "current_page (snd (next_page five_db (snd (load_page five_db 0 pairs_view)))) = 1"
    unfolding n by (simp add: load_page_def Let_def total_pages_def refresh_status_def
        five_first_page pairs_view_def fresh_view_def split: option.splits)
  show ?thesis using p c1 c2 c3 c4 by blast
qed

section \<open>The order of a page\<close>











section \<open>Roles\<close>

lemma valid_entries:
  "validate_form (entry ''Cy'' ''3'' ''CS'' ''70'') = Some True"
  "validate_form (entry ''Amy'' ''7'' ''EE'' ''95'') = Some True"
  by (simp_all add: validate_form_def entry_def strip_def py_isspace_def code_def
      name_char_ok_def py_isalpha_def isdigit_def py_isdigit_char_def py_int_def)

text \<open>
  Claim C7. In a guest session a delete request is refused and leaves the whole
  application state as it was. Add and update are carried out in every session, a
  guest's included: with a valid form, an add whose roll is in no row appends the
  row and an update whose roll is in no other row rewrites the selected row.
  Neither reads the role: with any role in place of the session's they end the
  same way and leave the same student table.
\<close>

theorem guest_may_not_delete:
  "(current_role st = Some ''Guest'' \<longrightarrow>
      delete_student clk (Some r) confirm st = (GuestDenied, st)
      \<and> snd (delete_student clk sel confirm st) = st)
   \<and> (validate_form f = Some True
        \<and> strip (m_roll f) \<notin> roll ` set (students (db st)) \<longrightarrow>
      fst (add_student clk f st) = Added
      \<and> students (db (snd (add_student clk f st))) =
          students (db st) @
            [\<lparr>sid = next_id (db st), name = strip (m_name f), roll = strip (m_roll f),
              course = strip (m_course f), marks = the (py_int (strip (m_marks f))),
              created_at = sql_now clk\<rparr>])
   \<and> (validate_form f = Some True
        \<and> strip (m_roll f)
            \<notin> roll ` set (filter (\<lambda>s. sid s \<noteq> t_id old) (students (db st))) \<longrightarrow>
      fst (update_student clk (Some old) f st) = Updated
      \<and> students (db (snd (update_student clk (Some old) f st))) =
          map (\<lambda>s. if sid s = t_id old
                   then s\<lparr>name := strip (m_name f), roll := strip (m_roll f),
                          course := strip (m_course f),
                          marks := the (py_int (strip (m_marks f)))\<rparr>
                   else s) (students (db st)))
   \<and> fst (add_student clk f (st\<lparr>current_role := q\<rparr>)) = fst (add_student clk f st)
   \<and> students (db (snd (add_student clk f (st\<lparr>current_role := q\<rparr>))))
       = students (db (snd (add_student clk f st)))
   \<and> fst (update_student clk sel f (st\<lparr>current_role := q\<rparr>))
       = fst (update_student clk sel f st)
   \<and> students (db (snd (update_student clk sel f (st\<lparr>current_role := q\<rparr>))))
       = students (db (snd (update_student clk sel f st)))"
proof -
  have del: "current_role st = Some ''Guest'' \<Longrightarrow>
      delete_student clk (Some r) confirm st = (GuestDenied, st)
      \<and> snd (delete_student clk sel confirm st) = st"
    by (auto simp add: delete_student_def split: option.splits)
  have add: "fst (add_student clk f st) = Added
      \<and> students (db (snd (add_student clk f st))) =
          students (db st) @
            [\<lparr>sid = next_id (db st), name = strip (m_name f), roll = strip (m_roll f),
              course = strip (m_course f), marks = the (py_int (strip (m_marks f))),
              created_at = sql_now clk\<rparr>]"
    if "validate_form f = Some True" "strip (m_roll f) \<notin> roll ` set (students (db st))"
    using that by (simp add: add_student_def insert_auto_def students_audit)
  have upd: "fst (update_student clk (Some old) f st) = Updated
      \<and> students (db (snd (update_student clk (Some old) f st))) =
          map (\<lambda>s. if sid s = t_id old
                   then s\<lparr>name := strip (m_name f), roll := strip (m_roll f),
                          course := strip (m_course f),
                          marks := the (py_int (strip (m_marks f)))\<rparr>
                   else s) (students (db st))"
    if "validate_form f = Some True"
      "strip (m_roll f) \<notin> roll ` set (filter (\<lambda>s. sid s \<noteq> t_id old) (students (db st)))"
    using that by (simp add: update_student_def update_row_def students_audit)
  have ind: "fst (add_student clk f (st\<lparr>current_role := q\<rparr>)) = fst (add_student clk f st)
   \<and> students (db (snd (add_student clk f (st\<lparr>current_role := q\<rparr>))))
       = students (db (snd (add_student clk f st)))
   \<and> fst (update_student clk sel f (st\<lparr>current_role := q\<rparr>))
       = fst (update_student clk sel f st)
   \<and> students (db (snd (update_student clk sel f (st\<lparr>current_role := q\<rparr>))))
       = students (db (snd (update_student clk sel f st)))"
    by (auto simp add: add_student_def update_student_def students_audit
        split: option.splits bool.splits sum.splits sql_error.splits)
  show ?thesis using del add upd ind by blast
qed

theorem guest_may_not_delete_witness:
  "current_role (session demo_db ''Guest'') = Some ''Guest''
   \<and> delete_student demo_clock (Some (pick amy)) True (session demo_db ''Guest'')
       = (GuestDenied, session demo_db ''Guest'')
   \<and> validate_form (entry ''Cy'' ''3'' ''CS'' ''70'') = Some True
   \<and> strip (m_roll (entry ''Cy'' ''3'' ''CS'' ''70''))
        \<notin> roll ` set (students (db (session demo_db ''Guest'')))
   \<and> fst (add_student demo_clock (entry ''Cy'' ''3'' ''CS'' ''70'') (session demo_db ''Guest''))
       = Added
   \<and> map name (students (db (snd (add_student demo_clock (entry ''Cy'' ''3'' ''CS'' ''70'')
        (session demo_db ''Guest''))))) = [''Amy'', ''bob'', ''Cy'']
   \<and> validate_form (entry ''Amy'' ''7'' ''EE'' ''95'') = Some True
   \<and> strip (m_roll (entry ''Amy'' ''7'' ''EE'' ''95''))
        \<notin> roll ` set (filter (\<lambda>s. sid s \<noteq> t_id (pick amy))
              (students (db (session demo_db ''Guest''))))
   \<and> fst (update_student demo_clock (Some (pick amy)) (entry ''Amy'' ''7'' ''EE'' ''95'')
        (session demo_db ''Guest'')) = Updated
   \<and> map (\<lambda>s. (roll s, marks s))
        (students (db (snd (update_student demo_clock (Some (pick amy))
           (entry ''Amy'' ''7'' ''EE'' ''95'') (session demo_db ''Guest'')))))
       = [(''7'', 95), (''2'', 80)]"
proof -
  let ?g = "session demo_db ''Guest''"
  let ?a = "entry ''Cy'' ''3'' ''CS'' ''70''"
  let ?u = "entry ''Amy'' ''7'' ''EE'' ''95''"
  have t: "students (db ?g) = [amy, bob]" by (simp add: session_def demo_students)
  have g: "current_role ?g = Some ''Guest''" by (simp add: session_def)
  have fa: "strip (m_roll ?a) \<notin> roll ` set (students (db ?g))"
    by (simp add: t entry_def strip_def py_isspace_def code_def amy_def bob_def)
  have fu: "strip (m_roll ?u)
      \<notin> roll ` set (filter (\<lambda>s. sid s \<noteq> t_id (pick amy)) (students (db ?g)))"
    by (simp add: t entry_def strip_def py_isspace_def code_def amy_def bob_def pick_def)
  note th = guest_may_not_delete [of ?g demo_clock "pick amy" True "Some (pick amy)" ?a "pick amy"]
  note tu = guest_may_not_delete [of ?g demo_clock "pick amy" True "Some (pick amy)" ?u "pick amy"]
  have c1: "delete_student demo_clock (Some (pick amy)) True ?g = (GuestDenied, ?g)"
    using th [THEN conjunct1] g by blast
  have c2: "fst (add_student demo_clock ?a ?g) = Added"
    and c3: "students (db (snd (add_student demo_clock ?a ?g))) =
          students (db ?g) @
            [\<lparr>sid = next_id (db ?g), name = strip (m_name ?a), roll = strip (m_roll ?a),
              course = strip (m_course ?a), marks = the (py_int (strip (m_marks ?a))),
              created_at = sql_now demo_clock\<rparr>]"
    using th [THEN conjunct2, THEN conjunct1] valid_entries(1) fa by blast+
  have c4: "fst (update_student demo_clock (Some (pick amy)) ?u ?g) = Updated"
    and c5: "students (db (snd (update_student demo_clock (Some (pick amy)) ?u ?g))) =
          map (\<lambda>s. if sid s = t_id (pick amy)
                   then s\<lparr>name := strip (m_name ?u), roll := strip (m_roll ?u),
                          course := strip (m_course ?u),
                          marks := the (py_int (strip (m_marks ?u)))\<rparr>
                   else s) (students (db ?g))"
    using tu [THEN conjunct2, THEN conjunct2, THEN conjunct1] valid_entries(2) fu by blast+
  have c3': "map name (students (db (snd (add_student demo_clock ?a ?g)))) = [''Amy'', ''bob'', ''Cy'']"
    unfolding c3 by (simp add: t amy_def bob_def entry_def strip_def py_isspace_def code_def)
  have c5': "map (\<lambda>s. (roll s, marks s))
        (students (db (snd (update_student demo_clock (Some (pick amy)) ?u ?g))))
       = [(''7'', 95), (''2'', 80)]"
    unfolding c5 by (simp add: t amy_def bob_def pick_def entry_def strip_def py_isspace_def
        code_def py_int_def)
  show ?thesis using g c1 valid_entries fa c2 c3' fu c4 c5' by blast
qed

section \<open>Undoing an add\<close>

text \<open>
  Claim C9. A successful add records the roll of its form, stripped, in its undo
  entry. Whenever that entry is the top of the undo stack, the undo runs
  \<^verbatim>\<open>DELETE FROM students WHERE roll=?\<close> with the recorded roll: the table loses
  exactly the rows that carry that roll now. If no row carries it (an update
  changed it), the table is unchanged; a row that carries it is removed, whatever
  its id, be it the row added or another.
\<close>

theorem undo_add_deletes_by_roll:
  assumes "add_student clk f st0 = (Added, st1)"
    and "undo_stack st \<noteq> []" and "last (undo_stack st) = last (undo_stack st1)"
  shows "undo_stack st1 = undo_stack st0 @ [UDelete (strip (m_roll f))]
    \<and> fst (undo_action clk' st) = UndoPerformed
    \<and> students (db (snd (undo_action clk' st)))
        = filter (\<lambda>s. roll s \<noteq> strip (m_roll f)) (students (db st))
    \<and> (strip (m_roll f) \<notin> roll ` set (students (db st)) \<longrightarrow>
          students (db (snd (undo_action clk' st))) = students (db st))
    \<and> (\<forall>x \<in> set (students (db st)). roll x = strip (m_roll f) \<longrightarrow>
          x \<notin> set (students (db (snd (undo_action clk' st)))))"
proof -
  let ?r = "strip (m_roll f)"
  have push: "undo_stack st1 = undo_stack st0 @ [UDelete ?r]"
    using assms(1)
    by (auto simp add: add_student_def split: option.splits bool.splits sum.splits
        sql_error.splits)
  then have top: "last (undo_stack st) = UDelete ?r" using assms(3) by simp
  have a: "students (db (snd (undo_action clk' st))) = filter (\<lambda>s. roll s \<noteq> ?r) (students (db st))"
    and b: "fst (undo_action clk' st) = UndoPerformed"
    using assms(2) top by (simp_all add: undo_action_def Let_def students_audit delete_roll_def)
  have c: "?r \<notin> roll ` set (students (db st)) \<Longrightarrow>
      filter (\<lambda>s. roll s \<noteq> ?r) (students (db st)) = students (db st)"
    by (auto simp: filter_id_conv image_iff)
  have e: "\<forall>x \<in> set (students (db st)). roll x = ?r \<longrightarrow>
      x \<notin> set (filter (\<lambda>s. roll s \<noteq> ?r) (students (db st)))"
    by simp
  show ?thesis using push a b c e by simp
qed

lemma run_added_state:
  "add_student demo_clock (entry ''Amy'' ''1'' ''CS'' ''90'') (session empty_db ''Admin'')
     = (Added, run_added)
   \<and> undo_stack run_added = [UDelete ''1'']"
  by (simp add: run_added_def add_student_def validate_form_def entry_def strip_def
      py_isspace_def code_def name_char_ok_def py_isalpha_def isdigit_def py_isdigit_char_def
      py_int_def insert_auto_def session_def empty_db_def init_db_def)

lemma run_imported_state:
  "map (\<lambda>s. (sid s, name s, roll s)) (students (db run_imported))
     = [(1, ''Amy'', ''2''), (2, ''Zed'', ''1'')]
   \<and> undo_stack run_imported
     = [UDelete ''1'',
        UUpdate \<lparr>t_id = 1, t_name = ''Amy'', t_roll = ''1'', t_course = ''CS'', t_marks = 90\<rparr>]"
  by (simp add: run_imported_def run_updated_def run_added_def zed_file_def
      import_file_def expected_def lower_def strip_def py_isspace_def
      code_def py_lower_char_def session_def empty_db_def init_db_def import_one_def
      marks_of_def int_float_digits_def py_int_def int64_def insert_auto_def next_id_def
      py_str_def add_student_def update_student_def validate_form_def entry_def
      name_char_ok_def py_isalpha_def isdigit_def py_isdigit_char_def update_row_def
      audit_def log_audit_def)

lemma run_refused_state:
  "fst (undo_action demo_clock run_imported) = UndoError
   \<and> students (db run_refused) = students (db run_imported)
   \<and> undo_stack run_refused = [UDelete ''1'']"
proof -
  obtain a z where az: "students (db run_imported) = [a, z]"
    "sid a = 1" "roll a = ''2''" "sid z = 2" "roll z = ''1''"
    using run_imported_state [THEN conjunct1] by (auto simp: map_eq_Cons_conv)
  have "update_row 1 ''Amy'' ''1'' ''CS'' 90 (db run_imported) = Inl IntegrityError"
    unfolding update_row_def using az by simp
  then show ?thesis
    using run_imported_state [THEN conjunct2]
    by (simp add: run_refused_def undo_action_def Let_def)
qed

theorem undo_add_deletes_by_roll_witness:
  "add_student demo_clock (entry ''Amy'' ''1'' ''CS'' ''90'') (session empty_db ''Admin'')
     = (Added, run_added)
   \<and> undo_stack run_refused \<noteq> [] \<and> last (undo_stack run_refused) = last (undo_stack run_added)
   \<and> map (\<lambda>s. (sid s, name s, roll s)) (students (db run_refused))
       = [(1, ''Amy'', ''2''), (2, ''Zed'', ''1'')]
   \<and> map (\<lambda>s. (sid s, name s, roll s)) (students (db (snd (undo_action demo_clock run_refused))))
       = [(1, ''Amy'', ''2'')]"
proof -
  have r: "strip (m_roll (entry ''Amy'' ''1'' ''CS'' ''90'')) = ''1''"
    by (simp add: entry_def strip_def py_isspace_def code_def)
  have s1: "undo_stack run_refused \<noteq> []"
    and s2: "last (undo_stack run_refused) = last (undo_stack run_added)"
    using run_refused_state run_added_state by simp_all
  have t: "map (\<lambda>s. (sid s, name s, roll s)) (students (db run_refused))
       = [(1, ''Amy'', ''2''), (2, ''Zed'', ''1'')]"
    using run_refused_state run_imported_state by simp
  note th = undo_add_deletes_by_roll [OF run_added_state [THEN conjunct1] s1 s2, of demo_clock]
  have "students (db (snd (undo_action demo_clock run_refused)))
      = filter (\<lambda>s. roll s \<noteq> ''1'') (students (db run_refused))"
    using th [THEN conjunct2, THEN conjunct2, THEN conjunct1] r by simp
  moreover obtain a z where "students (db run_refused) = [a, z]"
    "sid a = 1" "name a = ''Amy''" "roll a = ''2''" "roll z = ''1''"
    using t by (auto simp: map_eq_Cons_conv)
  ultimately have u: "map (\<lambda>s. (sid s, name s, roll s))
      (students (db (snd (undo_action demo_clock run_refused)))) = [(1, ''Amy'', ''2'')]"
    by simp
  show ?thesis using run_added_state s1 s2 t u by blast
qed

section \<open>Import\<close>

lemma import_one_count:
  "int (length (students (fst (import_one cv clk r acc)))) - snd (import_one cv clk r acc)
   = int (length (students (fst acc))) - snd acc"
  by (simp add: import_one_def insert_auto_def split: option.splits sql_error.splits)

text \<open>The count an import reports is the number of rows the table has gained.\<close>

lemma import_count_is_growth:
  "set expected \<subseteq> set (map (\<lambda>c. lower (strip c)) (columns df)) \<Longrightarrow>
   \<exists>n. fst (import_file cv clk df st) = ImportComplete n
     \<and> int (length (students (db (snd (import_file cv clk df st)))))
         = int (length (students (db st))) + n"
proof -
  assume h: "set expected \<subseteq> set (map (\<lambda>c. lower (strip c)) (columns df))"
  have f: "int (length (students (fst (fold (import_one cv clk) rs acc))))
       - snd (fold (import_one cv clk) rs acc)
     = int (length (students (fst acc))) - snd acc" for rs acc
  proof (induction rs arbitrary: acc)
    case Nil
    show ?case by simp
  next
    case (Cons r rs)
    show ?case using Cons [of "import_one cv clk r acc"] import_one_count [of cv clk r acc]
      by simp
  qed
  have a: "fst (import_file cv clk df st)
      = ImportComplete (snd (fold (import_one cv clk) (records df) (db st, 0)))"
    and b: "students (db (snd (import_file cv clk df st)))
      = students (fst (fold (import_one cv clk) (records df) (db st, 0)))"
    using h by (simp_all add: import_file_def Let_def students_audit)
  have "int (length (students (db (snd (import_file cv clk df st)))))
      = int (length (students (db st)))
        + snd (fold (import_one cv clk) (records df) (db st, 0))"
    unfolding b using f [of "records df" "(db st, 0)"] by simp
  with a show ?thesis by blast
qed

lemma two_rows_import:
  "import_file int_float_digits demo_clock (two_rows blank) (session empty_db ''Admin'')
   = (ImportComplete 2,
      (session empty_db ''Admin'')
        \<lparr>db := audit demo_clock ''import'' (session empty_db ''Admin'')
           (empty_db\<lparr>students :=
               [\<lparr>sid = 1, name = ''Amy'', roll = ''1'', course = ''CS'', marks = 90,
                 created_at = sql_now demo_clock\<rparr>,
                \<lparr>sid = 2, name = py_str blank, roll = ''2'', course = ''CS'', marks = 80,
                 created_at = sql_now demo_clock\<rparr>],
              seq := 2\<rparr>)\<rparr>)"
  by (simp add: import_file_def two_rows_def expected_def lower_def strip_def py_isspace_def
      code_def py_lower_char_def session_def empty_db_def init_db_def import_one_def
      marks_of_def int_float_digits_def py_int_def int64_def insert_auto_def next_id_def
      py_str_def)

text \<open>
  Claim C2. The claim has every imported row pass the validation of interactive
  Add, so that of the two example rows only the first is inserted. The code does
  not do so: \<^verbatim>\<open>import_file\<close> sends each row to the table with no field validation.
  The second example row, which \<^verbatim>\<open>validate_form\<close> refuses and \<^verbatim>\<open>add_student\<close> turns
  down, is inserted by the import, which reports 2 rows, with the name nan where
  pandas reads the empty field as \<^verbatim>\<open>NaN\<close> and with the empty name where the cell is
  the empty text.
\<close>

theorem import_inserts_invalid_row:
  "validate_form (entry [] ''2'' ''CS'' ''80'') = Some False
   \<and> add_student demo_clock (entry [] ''2'' ''CS'' ''80'') (session empty_db ''Admin'')
       = (ValidationWarning, session empty_db ''Admin'')
   \<and> fst (import_file int_float_digits demo_clock (two_rows None) (session empty_db ''Admin''))
       = ImportComplete 2
   \<and> map (\<lambda>s. (name s, roll s, marks s))
        (students (db (snd (import_file int_float_digits demo_clock (two_rows None)
           (session empty_db ''Admin'')))))
       = [(''Amy'', ''1'', 90), (''nan'', ''2'', 80)]
   \<and> fst (import_file int_float_digits demo_clock (two_rows (Some [])) (session empty_db ''Admin''))
       = ImportComplete 2
   \<and> map (\<lambda>s. (name s, roll s, marks s))
        (students (db (snd (import_file int_float_digits demo_clock (two_rows (Some []))
           (session empty_db ''Admin'')))))
       = [(''Amy'', ''1'', 90), ([], ''2'', 80)]"
proof -
  have v: "validate_form (entry [] ''2'' ''CS'' ''80'') = Some False"
    by (simp add: validate_form_def entry_def strip_def py_isspace_def code_def
        name_char_ok_def py_isalpha_def isdigit_def py_isdigit_char_def py_int_def)
  have a: "add_student demo_clock (entry [] ''2'' ''CS'' ''80'') (session empty_db ''Admin'')
       = (ValidationWarning, session empty_db ''Admin'')"
    by (simp add: add_student_def v)
  show ?thesis
    using v a by (simp add: two_rows_import students_audit py_str_def)
qed

theorem import_inserts_invalid_row_witness:
  "validate_form (entry [] ''2'' ''CS'' ''80'') = Some False
   \<and> fst (import_file int_float_digits demo_clock (two_rows None) (session empty_db ''Admin''))
       = ImportComplete 2
   \<and> fst (import_file int_float_digits demo_clock (two_rows (Some [])) (session empty_db ''Admin''))
       = ImportComplete 2"
  using import_inserts_invalid_row by blast

section \<open>What validation and the schema maintain\<close>

text \<open>A form that passed validation has marks that \<^verbatim>\<open>int\<close> reads, between 0 and 100.\<close>

lemma valid_marks:
  "validate_form f = Some True \<Longrightarrow>
   \<exists>m. py_int (strip (m_marks f)) = Some m \<and> 0 \<le> m \<and> m \<le> 100"
  by (auto simp add: validate_form_def Let_def split: if_splits option.splits)

lemma fold_max_ge: "(a::int) \<le> fold max xs a \<and> (\<forall>x\<in>set xs. x \<le> fold max xs a)"
proof (induction xs arbitrary: a)
  case Nil
  show ?case by simp
next
  case (Cons y ys)
  have "max y a \<le> fold max ys (max y a)" and "\<forall>x\<in>set ys. x \<le> fold max ys (max y a)"
    using Cons [of "max y a"] by simp_all
  then show ?case by auto
qed

lemma next_id_above: "x \<in> set (students d) \<Longrightarrow> sid x < next_id d"
  using fold_max_ge [of "seq d" "map sid (students d)"] by (auto simp: next_id_def)

lemma insert_auto_table_ok:
  "table_ok d \<Longrightarrow> insert_auto clk n r c m d = Inr d' \<Longrightarrow> table_ok d'"
  by (auto simp add: table_ok_def insert_auto_def sorted_wrt_append next_id_above
      split: if_splits)

lemma sorted_ids_insort:
  "sorted_wrt (<) (map sid xs) \<Longrightarrow> sid s \<notin> sid ` set xs \<Longrightarrow>
   sorted_wrt (<) (map sid (insort_key sid s xs))"
proof (induction xs)
  case Nil
  show ?case by simp
next
  case (Cons a xs)
  then show ?case by (auto simp: set_insort_key)
qed

lemma distinct_rolls_insort:
  "distinct (map roll xs) \<Longrightarrow> roll s \<notin> roll ` set xs \<Longrightarrow>
   distinct (map roll (insort_key sid s xs))"
  by (induction xs) (auto simp: set_insort_key)

lemma insert_row_table_ok:
  "table_ok d \<Longrightarrow> insert_row s d = Inr d' \<Longrightarrow> table_ok d'"
  by (auto simp add: table_ok_def insert_row_def sorted_ids_insort distinct_rolls_insort
      split: if_splits)

lemma delete_id_table_ok: "table_ok d \<Longrightarrow> table_ok (delete_id i d)"
  by (auto simp add: table_ok_def delete_id_def sorted_wrt_map sorted_wrt_filter
      distinct_map_filter)

lemma delete_roll_table_ok: "table_ok d \<Longrightarrow> table_ok (delete_roll r d)"
  by (auto simp add: table_ok_def delete_roll_def sorted_wrt_map sorted_wrt_filter
      distinct_map_filter)

lemma audit_table_ok: "table_ok (audit clk a st d) = table_ok d"
  by (simp add: table_ok_def students_audit)

text \<open>Adding and deleting keep the table as the schema wants it, and so does the
  undo of either.\<close>

lemma add_student_table_ok:
  "table_ok (db st) \<Longrightarrow> table_ok (db (snd (add_student clk f st)))"
  by (auto simp add: add_student_def audit_table_ok
      split: option.splits bool.splits sum.splits sql_error.splits
      dest: insert_auto_table_ok)

lemma delete_student_table_ok:
  "table_ok (db st) \<Longrightarrow> table_ok (db (snd (delete_student clk sel confirm st)))"
  by (auto simp add: delete_student_def audit_table_ok delete_id_table_ok
      split: option.splits)

lemma import_one_table_ok:
  "table_ok (fst acc) \<Longrightarrow> table_ok (fst (import_one cv clk r acc))"
  by (auto simp add: import_one_def split: option.splits sum.splits sql_error.splits
      dest: insert_auto_table_ok)

lemma import_file_table_ok:
  "table_ok (db st) \<Longrightarrow> table_ok (db (snd (import_file cv clk df st)))"
proof -
  have "table_ok (fst acc) \<Longrightarrow> table_ok (fst (fold (import_one cv clk) rs acc))" for rs acc
    by (induction rs arbitrary: acc) (simp_all add: import_one_table_ok)
  then show "table_ok (db st) \<Longrightarrow> table_ok (db (snd (import_file cv clk df st)))"
    by (simp add: import_file_def Let_def audit_table_ok)
qed

end
